theory Spec2Isabelle
  imports Main "HOL-Library.Char_ord" "HOL-Library.List_Lexorder"
begin

section \<open>Data model of \<open>app.py\<close>\<close>

text \<open>
  The application keeps two tables (\<open>Usuario\<close> and \<open>SolicitudDB\<close>) and an ambient
  \<open>current_user\<close>. Each table is a list of rows in insertion order; the ambient user
  and the tables are passed to every operation and the updated table is returned.
  Nullable columns that the code tests against \<open>None\<close> are \<open>option\<close>s. The columns
  \<open>direccion\<close>, \<open>comisaria_cercana\<close>, \<open>contacto\<close> and \<open>estado\<close> are plain strings:
  the only insertion path (\<open>formulario_solicitud\<close>) always supplies strings for them
  and \<open>estado\<close> has the column default. Primary keys are integers; a key that arrives
  as form text is taken as already resolved to an integer. The routes that only read
  (\<open>confirmacion\<close>, \<open>panel_admin\<close>), \<open>logout\<close>, the seeding of the two default
  accounts and the form parsing of the route \<open>gestionar\<close> are outside the embedding;
  the function \<open>gestionar_solicitud_db\<close> that this route calls is inside.
\<close>

record Usuario =
  id_usuario :: int
  username :: string
  password_hash :: "string option"
  rol :: string

record SolicitudDB =
  id_solicitud :: int
  solicitante :: string
  fecha_inicio_str :: string
  fecha_fin_str :: string
  direccion :: string
  comisaria_cercana :: string
  contacto :: string
  servicio :: string
  estado :: string
  autorizador :: "string option"

text \<open>
  \<open>current_user\<close> of Flask-Login: the anonymous user, or a loaded \<open>Usuario\<close>
  (\<open>UserMixin.is_authenticated\<close> is true for every loaded user).
\<close>

datatype current_user = AnonymousUser | LoggedIn Usuario

fun is_authenticated :: "current_user \<Rightarrow> bool" where
  "is_authenticated AnonymousUser = False"
| "is_authenticated (LoggedIn u) = True"

subsection \<open>Permissions\<close>

definition ROLES :: "(string \<times> string list) list" where
  "ROLES =
    [(''Administrador'', [''ver_panel'', ''generar_pdf'', ''gestionar_solicitud'', ''gestionar_usuarios'']),
     (''Guardia'', [''ver_panel'', ''generar_pdf'']),
     (''Ventas'', [''ver_informe'']),
     (''Editor'', [''editar_producto''])]"

text \<open>\<open>d.get(k, default)\<close> of a Python dict given as an association list.\<close>

definition dict_get :: "('k \<times> 'v) list \<Rightarrow> 'k \<Rightarrow> 'v \<Rightarrow> 'v" where
  "dict_get d k dflt = (case map_of d k of None \<Rightarrow> dflt | Some v \<Rightarrow> v)"

fun tiene_permiso :: "current_user \<Rightarrow> string \<Rightarrow> bool" where
  "tiene_permiso AnonymousUser permiso_requerido = False"
| "tiene_permiso (LoggedIn u) permiso_requerido =
     (permiso_requerido \<in> set (dict_get ROLES (rol u) []))"

text \<open>
  The contract of \<open>hasCapability\<close> in the words of the specification: the actor is
  authenticated and the capability belongs to the Permission Table entry of the
  actor's role.
\<close>

definition hasCapability_spec :: "current_user \<Rightarrow> string \<Rightarrow> bool" where
  "hasCapability_spec actor capability =
     (case actor of
        AnonymousUser \<Rightarrow> False
      | LoggedIn u \<Rightarrow>
          (case map_of ROLES (rol u) of
             None \<Rightarrow> False
           | Some caps \<Rightarrow> capability \<in> set caps))"

subsection \<open>Errors, flashed messages and responses\<close>

text \<open>
  Exceptions that leave a function are values: a missing form key
  (\<open>d['k']\<close> on \<open>request.form\<close>), a violated \<open>nullable=False\<close> constraint at commit,
  a failure inside the password-hashing collaborator, and the driver's refusal of an
  integer key that does not fit the store's signed 64-bit key column.
\<close>

datatype error = BadRequestKeyError string | IntegrityError | HashingError | OverflowError

datatype http_method = GET | POST

datatype color = lightgreen | lightcoral | yellow | white

datatype comando_estilo = BACKGROUND "nat \<times> nat" "nat \<times> nat" color

text \<open>
  What \<open>generar_pdf_historial\<close> hands to the document library: the title line, the
  "Generado por" user, the record count, the table \<open>data\<close> and the \<open>BACKGROUND\<close>
  commands added in the loop. The fixed \<open>TableStyle\<close> entries, the timestamp and the
  page geometry are constant layout and are left to the library.
\<close>

record reporte =
  titulo_reporte :: string
  usuario_actual :: string
  total_registros :: nat
  data :: "string list list"
  fondos :: "comando_estilo list"

datatype respuesta =
    Redirect string
  | RedirectConfirmacion int
  | Render string
  | AccesoDenegado
  | PdfResponse reporte string

type_synonym flashes = "(string \<times> string) list"

definition bind_err :: "error + 'a \<Rightarrow> ('a \<Rightarrow> error + 'b) \<Rightarrow> error + 'b" where
  "bind_err m f = (case m of Inl e \<Rightarrow> Inl e | Inr v \<Rightarrow> f v)"

text \<open>\<open>request.form[k]\<close>: the value, or the exception for a missing key.\<close>

definition form_item :: "(string \<rightharpoonup> string) \<Rightarrow> string \<Rightarrow> error + string" where
  "form_item d k = (case d k of None \<Rightarrow> Inl (BadRequestKeyError k) | Some v \<Rightarrow> Inr v)"

text \<open>
  \<open>@login_required\<close> for an anonymous user: Flask-Login flashes \<open>login_message\<close> and
  redirects to \<open>login_view\<close>. The message is kept in UTF-8 (the accented letter is two bytes).
\<close>

definition login_message :: string where
  "login_message = ''Por favor, inicie sesi'' @ [CHR 0xC3, CHR 0xB3] @ ''n para acceder a esta p''
     @ [CHR 0xC3, CHR 0xA1] @ ''gina.''"

definition unauthorized :: "flashes \<times> respuesta" where
  "unauthorized = ([(login_message, ''message'')], Redirect ''login'')"

subsection \<open>Credential store\<close>

text \<open>
  \<open>check_password_hash\<close> and \<open>generate_password_hash\<close> belong to the hashing library;
  they are parameters (\<open>cph\<close>, \<open>gph\<close>) and may fail. The form values come from
  \<open>request.form.get\<close>, which yields \<open>None\<close> for a missing field.
\<close>

definition check_password ::
  "(string \<Rightarrow> string option \<Rightarrow> error + bool) \<Rightarrow> Usuario \<Rightarrow> string option \<Rightarrow> error + bool" where
  "check_password cph self password =
     (case password_hash self of
        None \<Rightarrow> Inr False
      | Some h \<Rightarrow> if h = [] then Inr False else cph h password)"

text \<open>\<open>Usuario.query.filter_by(username=x).first()\<close>; a \<open>None\<close> argument matches no row.\<close>

definition first_by_username :: "Usuario list \<Rightarrow> string option \<Rightarrow> Usuario option" where
  "first_by_username usuarios x = find (\<lambda>u. Some (username u) = x) usuarios"

definition credenciales_invalidas :: string where
  "credenciales_invalidas = ''Credenciales inv'' @ [CHR 0xC3, CHR 0xA1] @ ''lidas.''"

definition login ::
  "(string \<Rightarrow> string option \<Rightarrow> error + bool) \<Rightarrow> current_user \<Rightarrow> http_method \<Rightarrow> Usuario list
     \<Rightarrow> string option \<Rightarrow> string option \<Rightarrow> error + (current_user \<times> flashes \<times> respuesta)" where
  "login cph cu method usuarios form_username form_password =
     (if is_authenticated cu then Inr (cu, [], Redirect ''panel_admin'')
      else if method = POST then
        (case first_by_username usuarios form_username of
           None \<Rightarrow> Inr (cu, [(credenciales_invalidas, ''error'')], Render ''login.html'')
         | Some user \<Rightarrow>
             bind_err (check_password cph user form_password) (\<lambda>ok.
               if ok then Inr (LoggedIn user, [], Redirect ''panel_admin'')
               else Inr (cu, [(credenciales_invalidas, ''error'')], Render ''login.html'')))
      else Inr (cu, [], Render ''login.html''))"

text \<open>
  The next primary key, as SQLite (the local store of the source) assigns it: 1 in an
  empty table, otherwise one more than the largest key in use. (Only when the largest
  possible key \<open>2 ^ 63 - 1\<close> is in use does SQLite pick an unused key at random
  instead; the application, which numbers its rows from 1, does not get there.)
\<close>

definition next_id :: "int list \<Rightarrow> int" where
  "next_id ids = (case ids of [] \<Rightarrow> 1 | x # xs \<Rightarrow> fold max xs x + 1)"

definition gestionar_usuarios ::
  "(string option \<Rightarrow> error + string) \<Rightarrow> current_user \<Rightarrow> http_method \<Rightarrow> Usuario list
     \<Rightarrow> string option \<Rightarrow> string option \<Rightarrow> string option
     \<Rightarrow> error + (Usuario list \<times> flashes \<times> respuesta)" where
  "gestionar_usuarios gph cu method usuarios form_username form_password form_rol =
     (if \<not> is_authenticated cu then Inr (usuarios, unauthorized)
      else if \<not> tiene_permiso cu ''gestionar_usuarios'' then Inr (usuarios, [], AccesoDenegado)
      else if method = POST then
        (case first_by_username usuarios form_username of
           None \<Rightarrow>
             bind_err (gph form_password) (\<lambda>h.
               case (form_username, form_rol) of
                 (Some n, Some r) \<Rightarrow>
                   Inr (usuarios @ [\<lparr>id_usuario = next_id (map id_usuario usuarios), username = n,
                                     password_hash = Some h, rol = r\<rparr>],
                        [(''Usuario creado.'', ''success'')], Render ''gestionar_usuarios.html'')
               | _ \<Rightarrow> Inl IntegrityError)
         | Some _ \<Rightarrow>
             Inr (usuarios, [(''Usuario ya existe.'', ''error'')], Render ''gestionar_usuarios.html''))
      else Inr (usuarios, [], Render ''gestionar_usuarios.html''))"

subsection \<open>Request store and transitions\<close>

text \<open>
  \<open>SolicitudDB.query.get(i)\<close> for an integer \<open>i\<close>: the row with that primary key,
  \<open>None\<close> when no row has it, and \<open>OverflowError\<close> from the driver when \<open>i\<close> is
  outside the signed 64-bit range of the key column (no row of the store has such a
  key). Neither \<open>gestionar_solicitud_db\<close> nor \<open>eliminar_solicitud\<close> guards the call.
\<close>

definition clave_en_rango :: "int \<Rightarrow> bool" where
  "clave_en_rango i = (- (2 ^ 63) \<le> i \<and> i < 2 ^ 63)"

definition query_get :: "SolicitudDB list \<Rightarrow> int \<Rightarrow> error + SolicitudDB option" where
  "query_get rows i =
     (case find (\<lambda>r. id_solicitud r = i) rows of
        Some r \<Rightarrow> Inr (Some r)
      | None \<Rightarrow> if clave_en_rango i then Inr None else Inl OverflowError)"

text \<open>
  \<open>gestionar_solicitud_db\<close> reads the ambient \<open>current_user\<close> for the permission check
  and records its first argument as authorizer; its only caller, the route
  \<open>gestionar\<close>, passes \<open>current_user.username\<close>. The two assignments and the commit
  are one \<open>UPDATE\<close> of the row with the key of the loaded object. An exception of
  the lookup leaves the function before anything is written.
\<close>

definition gestionar_solicitud_db ::
  "current_user \<Rightarrow> string \<Rightarrow> int \<Rightarrow> string \<Rightarrow> SolicitudDB list
     \<Rightarrow> error + (bool \<times> SolicitudDB list)" where
  "gestionar_solicitud_db cu usuario_autorizador solicitud_id nueva_estado rows =
     (if \<not> tiene_permiso cu ''gestionar_solicitud'' then Inr (False, rows)
      else
        bind_err (query_get rows solicitud_id) (\<lambda>encontrada.
          case encontrada of
            Some solicitud \<Rightarrow>
              Inr (True,
                   map (\<lambda>r. if id_solicitud r = id_solicitud solicitud
                             then r\<lparr>estado := nueva_estado,
                                   autorizador := Some usuario_autorizador\<rparr>
                             else r) rows)
          | None \<Rightarrow> Inr (False, rows)))"

definition formulario_solicitud ::
  "current_user \<Rightarrow> http_method \<Rightarrow> (string \<rightharpoonup> string) \<Rightarrow> SolicitudDB list
     \<Rightarrow> error + (SolicitudDB list \<times> respuesta)" where
  "formulario_solicitud cu method d rows =
     (if method = POST then
        bind_err (form_item d ''solicitante'') (\<lambda>v_solicitante.
        bind_err (form_item d ''inicio'') (\<lambda>v_inicio.
        bind_err (form_item d ''fin'') (\<lambda>v_fin.
        bind_err (form_item d ''direccion'') (\<lambda>v_direccion.
        bind_err (form_item d ''comisaria'') (\<lambda>v_comisaria.
        bind_err (form_item d ''contacto'') (\<lambda>v_contacto.
        bind_err (form_item d ''servicio'') (\<lambda>v_servicio.
          let nueva = \<lparr>id_solicitud = next_id (map id_solicitud rows),
                       solicitante = v_solicitante, fecha_inicio_str = v_inicio,
                       fecha_fin_str = v_fin, direccion = v_direccion,
                       comisaria_cercana = v_comisaria, contacto = v_contacto,
                       servicio = v_servicio, estado = ''PENDIENTE'', autorizador = None\<rparr>
          in Inr (rows @ [nueva], RedirectConfirmacion (id_solicitud nueva)))))))))
      else Inr (rows, Render ''solicitud.html''))"

text \<open>
  The deletion route; \<open>i\<close> is the integer of the URL, of any size.
\<close>

definition eliminar_solicitud ::
  "current_user \<Rightarrow> int \<Rightarrow> SolicitudDB list
     \<Rightarrow> error + (SolicitudDB list \<times> flashes \<times> respuesta)" where
  "eliminar_solicitud cu i rows =
     (if \<not> is_authenticated cu then Inr (rows, unauthorized)
      else if tiene_permiso cu ''gestionar_solicitud'' then
        bind_err (query_get rows i) (\<lambda>encontrada.
          case encontrada of
            Some sol \<Rightarrow>
              Inr (filter (\<lambda>r. id_solicitud r \<noteq> id_solicitud sol) rows,
                   [(''Eliminada.'', ''success'')], Redirect ''lista_general_solicitudes'')
          | None \<Rightarrow> Inr (rows, [], Redirect ''lista_general_solicitudes''))
      else Inr (rows, [], Redirect ''lista_general_solicitudes''))"

text \<open>
  The route \<open>lista_general_solicitudes\<close>; \<open>modo_arg\<close> is \<open>request.args.get('modo')\<close>
  before the default, \<open>hoy_str\<close> is today's date as formatted by the clock. The result
  is the triple of template arguments (solicitudes, modo, titulo). The two filter
  criteria are compared by the store as strings.
\<close>

definition lista_general_solicitudes ::
  "string option \<Rightarrow> string \<Rightarrow> SolicitudDB list \<Rightarrow> SolicitudDB list \<times> string \<times> string" where
  "lista_general_solicitudes modo_arg hoy_str rows =
     (let modo = (case modo_arg of None \<Rightarrow> ''hoy'' | Some m \<Rightarrow> m)
      in if modo = ''hoy''
         then (filter (\<lambda>s. fecha_inicio_str s \<le> hoy_str \<and> fecha_fin_str s \<ge> hoy_str) rows,
               modo, ''Vigentes HOY'')
         else (rows, modo, ''Historial Completo''))"

subsection \<open>Report projector\<close>

text \<open>
  \<open>get_fecha_inicio\<close> and \<open>get_fecha_fin\<close> reformat the stored string with the date
  library and fall back to the stored string when the library raises. The library
  call \<open>strptime(s, '%Y-%m-%d').strftime('%d/%m/%Y')\<close> is the parameter \<open>fmt\<close>,
  with \<open>None\<close> for an exception.
\<close>

definition get_fecha_inicio :: "(string \<Rightarrow> string option) \<Rightarrow> SolicitudDB \<Rightarrow> string" where
  "get_fecha_inicio fmt self =
     (case fmt (fecha_inicio_str self) of Some s \<Rightarrow> s | None \<Rightarrow> fecha_inicio_str self)"

definition get_fecha_fin :: "(string \<Rightarrow> string option) \<Rightarrow> SolicitudDB \<Rightarrow> string" where
  "get_fecha_fin fmt self =
     (case fmt (fecha_fin_str self) of Some s \<Rightarrow> s | None \<Rightarrow> fecha_fin_str self)"

text \<open>\<open>str(n)\<close> for an integer: decimal digits, with a sign for negatives.\<close>

fun str_nat :: "nat \<Rightarrow> string" where
  "str_nat n = (if n < 10 then [''0123456789'' ! n]
                else str_nat (n div 10) @ [''0123456789'' ! (n mod 10)])"

declare str_nat.simps [simp del]

definition str_int :: "int \<Rightarrow> string" where
  "str_int i = (if i < 0 then CHR ''-'' # str_nat (nat (- i)) else str_nat (nat i))"

definition encabezado :: "string list" where
  "encabezado = [''ID'', ''Solicitante'', ''Servicio'',
                 ''Per'' @ [CHR 0xC3, CHR 0xAD] @ ''odo'',
                 ''Direcci'' @ [CHR 0xC3, CHR 0xB3] @ ''n'',
                 ''Estado'', ''Autorizador'', ''Contacto'']"

text \<open>
  The body of the first loop: one table row for \<open>sol\<close>. The conditional expression
  \<open>sol.autorizador if sol.autorizador else 'N/A'\<close> tests truthiness, so both \<open>None\<close>
  and the empty string give \<open>'N/A'\<close>.
\<close>

definition fila :: "(string \<Rightarrow> string option) \<Rightarrow> SolicitudDB \<Rightarrow> string list" where
  "fila fmt sol =
     (let periodo = get_fecha_inicio fmt sol @ '' - '' @ get_fecha_fin fmt sol;
          direccion_completa =
            direccion sol @ [CHR 0x0A] @ ''(Com.: '' @ comisaria_cercana sol @ '')'';
          autorizador_str =
            (case autorizador sol of
               None \<Rightarrow> ''N/A''
             | Some a \<Rightarrow> if a = [] then ''N/A'' else a)
      in [str_int (id_solicitud sol), solicitante sol, servicio sol, periodo,
          direccion_completa, estado sol, autorizador_str, contacto sol])"

fun agregar_filas ::
  "(string \<Rightarrow> string option) \<Rightarrow> SolicitudDB list \<Rightarrow> string list list \<Rightarrow> string list list" where
  "agregar_filas fmt [] tabla = tabla"
| "agregar_filas fmt (sol # solicitudes) tabla = agregar_filas fmt solicitudes (tabla @ [fila fmt sol])"

text \<open>The body of the second loop: the highlight of the state cell of row \<open>i\<close>.\<close>

definition color_estado :: "string \<Rightarrow> color" where
  "color_estado e =
     (if e = ''APROBADA'' then lightgreen
      else if e = ''RECHAZADA'' then lightcoral
      else if e = ''PENDIENTE'' then yellow
      else white)"

definition colorear :: "string list list \<Rightarrow> comando_estilo list" where
  "colorear tabla =
     map (\<lambda>i. BACKGROUND (5, i) (5, i) (color_estado (tabla ! i ! 5))) [1..<length tabla]"

definition generar_pdf_historial ::
  "(string \<Rightarrow> string option) \<Rightarrow> current_user \<Rightarrow> SolicitudDB list \<Rightarrow> SolicitudDB list option
     \<Rightarrow> string \<Rightarrow> reporte" where
  "generar_pdf_historial fmt cu rows lista_solicitudes titulo =
     (let solicitudes = (case lista_solicitudes of None \<Rightarrow> rows | Some l \<Rightarrow> l);
          tabla = agregar_filas fmt solicitudes [encabezado]
      in \<lparr>titulo_reporte = titulo,
          usuario_actual = (case cu of LoggedIn u \<Rightarrow> username u | AnonymousUser \<Rightarrow> ''Sistema''),
          total_registros = length solicitudes,
          data = tabla,
          fondos = colorear tabla\<rparr>)"

definition descargar_historial_pdf ::
  "(string \<Rightarrow> string option) \<Rightarrow> current_user \<Rightarrow> SolicitudDB list \<Rightarrow> flashes \<times> respuesta" where
  "descargar_historial_pdf fmt cu rows =
     (if \<not> is_authenticated cu then unauthorized
      else if \<not> tiene_permiso cu ''generar_pdf'' then ([], Redirect ''panel_admin'')
      else ([], PdfResponse (generar_pdf_historial fmt cu rows None ''Historial Completo'')
                  ''Historial_Completo.pdf''))"

text \<open>
  \<open>hoy_str\<close> and \<open>fecha_bonita\<close> are the two readings of the clock, already formatted.
\<close>

definition descargar_pdf_hoy ::
  "(string \<Rightarrow> string option) \<Rightarrow> current_user \<Rightarrow> string \<Rightarrow> string \<Rightarrow> SolicitudDB list
     \<Rightarrow> flashes \<times> respuesta" where
  "descargar_pdf_hoy fmt cu hoy_str fecha_bonita rows =
     (if \<not> is_authenticated cu then unauthorized
      else if \<not> tiene_permiso cu ''generar_pdf''
        then ([(''No tienes permiso'', ''error'')], Redirect ''panel_admin'')
      else
        (let solicitudes_hoy =
               filter (\<lambda>s. fecha_inicio_str s \<le> hoy_str \<and> fecha_fin_str s \<ge> hoy_str) rows
         in ([], PdfResponse
                   (generar_pdf_historial fmt cu rows (Some solicitudes_hoy)
                      (''Bit'' @ [CHR 0xC3, CHR 0xA1] @ ''cora Diaria - '' @ fecha_bonita))
                   (''Reporte_Diario_'' @ hoy_str @ ''.pdf''))))"

subsection \<open>Reachable request stores\<close>

text \<open>
  The request invariant of the data model: the authorizer is set exactly when the
  state is not \<open>PENDIENTE\<close>.
\<close>

definition solicitud_inv :: "SolicitudDB \<Rightarrow> bool" where
  "solicitud_inv r = ((autorizador r \<noteq> None) = (estado r \<noteq> ''PENDIENTE''))"

definition store_inv :: "SolicitudDB list \<Rightarrow> bool" where
  "store_inv rows = list_all solicitud_inv rows"

text \<open>
  The operations that write the request table: a POST of the public form, a call of
  \<open>gestionar_solicitud_db\<close>, and the deletion route. An operation that raises commits
  nothing. The reachable stores are the results of \<open>ejecutar ops []\<close>.
\<close>

datatype operacion =
    Enviar current_user "string \<rightharpoonup> string"
  | Transicion current_user string int string
  | Eliminar current_user int

fun aplicar :: "operacion \<Rightarrow> SolicitudDB list \<Rightarrow> SolicitudDB list" where
  "aplicar (Enviar cu d) rows =
     (case formulario_solicitud cu POST d rows of Inl e \<Rightarrow> rows | Inr (rows', r) \<Rightarrow> rows')"
| "aplicar (Transicion cu a i e) rows =
     (case gestionar_solicitud_db cu a i e rows of Inl err \<Rightarrow> rows | Inr (ok, rows') \<Rightarrow> rows')"
| "aplicar (Eliminar cu i) rows =
     (case eliminar_solicitud cu i rows of Inl err \<Rightarrow> rows | Inr (rows', fl, r) \<Rightarrow> rows')"

fun ejecutar :: "operacion list \<Rightarrow> SolicitudDB list \<Rightarrow> SolicitudDB list" where
  "ejecutar [] rows = rows"
| "ejecutar (x # ops) rows = ejecutar ops (aplicar x rows)"

fun destino_pendiente :: "operacion \<Rightarrow> bool" where
  "destino_pendiente (Transicion cu a i e) = (e = ''PENDIENTE'')"
| "destino_pendiente (Enviar cu d) = False"
| "destino_pendiente (Eliminar cu i) = False"

fun transicion_exitosa_a_pendiente :: "operacion \<Rightarrow> SolicitudDB list \<Rightarrow> bool" where
  "transicion_exitosa_a_pendiente (Transicion cu a i e) rows =
     (e = ''PENDIENTE''
      \<and> (case gestionar_solicitud_db cu a i e rows of Inl err \<Rightarrow> False | Inr (ok, rows') \<Rightarrow> ok))"
| "transicion_exitosa_a_pendiente (Enviar cu d) rows = False"
| "transicion_exitosa_a_pendiente (Eliminar cu i) rows = False"

subsection \<open>Concrete inputs used in the examples\<close>

text \<open>
  The two seeded accounts (with stand-in hash strings), an account without a hash, an
  account whose name is the empty string as the user-management form creates it, and
  the form of the end-to-end example of the specification.
\<close>

definition ej_admin :: Usuario where
  "ej_admin = \<lparr>id_usuario = 1, username = ''victor_admin'',
               password_hash = Some ''hash-admin'', rol = ''Administrador''\<rparr>"

definition ej_guardia :: Usuario where
  "ej_guardia = \<lparr>id_usuario = 2, username = ''GUARDIA'',
                 password_hash = Some ''hash-guardia'', rol = ''Guardia''\<rparr>"

definition ej_sin_hash :: Usuario where
  "ej_sin_hash = \<lparr>id_usuario = 3, username = ''nuevo'',
                  password_hash = None, rol = ''Administrador''\<rparr>"

definition ej_sin_nombre :: Usuario where
  "ej_sin_nombre = \<lparr>id_usuario = 2, username = '''',
                    password_hash = Some ''hash-x'', rol = ''Administrador''\<rparr>"

definition ej_form :: "string \<rightharpoonup> string" where
  "ej_form = map_of
     [(''solicitante'', ''Ana Rojas''), (''inicio'', ''2024-03-01''), (''fin'', ''2024-03-05''),
      (''direccion'', ''Av. Central 12''), (''comisaria'', ''Comisaria 3''),
      (''contacto'', ''555-0101''), (''servicio'', ''Gasfiteria'')]"

text \<open>The row that a POST of \<open>ej_form\<close> adds to an empty table.\<close>

definition ej_nueva :: SolicitudDB where
  "ej_nueva = \<lparr>id_solicitud = 1, solicitante = ''Ana Rojas'',
     fecha_inicio_str = ''2024-03-01'', fecha_fin_str = ''2024-03-05'',
     direccion = ''Av. Central 12'', comisaria_cercana = ''Comisaria 3'',
     contacto = ''555-0101'', servicio = ''Gasfiteria'',
     estado = ''PENDIENTE'', autorizador = None\<rparr>"

definition ej_solicitud :: SolicitudDB where
  "ej_solicitud = \<lparr>id_solicitud = 1, solicitante = ''Ana Rojas'',
     fecha_inicio_str = ''2024-01-10'', fecha_fin_str = ''2024-01-20'',
     direccion = ''Av. Central 12'', comisaria_cercana = ''Comisaria 3'',
     contacto = ''555-0101'', servicio = ''Gasfiteria'',
     estado = ''PENDIENTE'', autorizador = None\<rparr>"

text \<open>
  The values of the date library at the two dates of \<open>ej_solicitud\<close>; on other
  inputs this stand-in reports an exception.
\<close>

definition ej_fmt :: "string \<Rightarrow> string option" where
  "ej_fmt s = (if s = ''2024-01-10'' then Some ''10/01/2024''
               else if s = ''2024-01-20'' then Some ''20/01/2024''
               else None)"

section \<open>Permission check\<close>

lemmas perm_defs = ROLES_def dict_get_def

lemma tiene_permiso_autenticado: "tiene_permiso cu p \<Longrightarrow> is_authenticated cu"
  by (cases cu) simp_all

text \<open>
  C3. For every actor and capability, \<open>tiene_permiso\<close> is true exactly when the actor
  is authenticated and the capability is in the ROLES entry of the actor's role; it is
  false for every unauthenticated actor and for every role that is not a key of ROLES.
\<close>

theorem tiene_permiso_contract:
  "(tiene_permiso actor capability = hasCapability_spec actor capability)
   \<and> (tiene_permiso actor capability \<longleftrightarrow>
        (\<exists>u caps. actor = LoggedIn u \<and> map_of ROLES (rol u) = Some caps \<and> capability \<in> set caps))
   \<and> (\<not> is_authenticated actor \<longrightarrow> \<not> tiene_permiso actor capability)
   \<and> (\<forall>u. actor = LoggedIn u \<and> rol u \<notin> fst ` set ROLES \<longrightarrow> \<not> tiene_permiso actor capability)"
proof (cases actor)
  case AnonymousUser
  then show ?thesis by (simp add: hasCapability_spec_def)
next
  case (LoggedIn u)
  show ?thesis
  proof (cases "map_of ROLES (rol u)")
    case None
    with LoggedIn show ?thesis
      by (simp add: hasCapability_spec_def dict_get_def)
  next
    case (Some caps)
    then have "rol u \<in> fst ` set ROLES"
      using map_of_eq_None_iff [of ROLES "rol u"] by simp
    with LoggedIn Some show ?thesis
      by (simp add: hasCapability_spec_def dict_get_def)
  qed
qed

text \<open>
  Witness for C3: the administrator holds \<open>gestionar_usuarios\<close>, the guard does not,
  the anonymous user holds nothing, and a role outside ROLES confers nothing.
\<close>

theorem tiene_permiso_contract_witness:
  "tiene_permiso (LoggedIn ej_admin) ''gestionar_usuarios''
   \<and> hasCapability_spec (LoggedIn ej_admin) ''gestionar_usuarios''
   \<and> \<not> tiene_permiso (LoggedIn ej_guardia) ''gestionar_usuarios''
   \<and> \<not> is_authenticated AnonymousUser \<and> \<not> tiene_permiso AnonymousUser ''ver_panel''
   \<and> rol (ej_admin\<lparr>rol := ''Supervisor''\<rparr>) \<notin> fst ` set ROLES
   \<and> \<not> tiene_permiso (LoggedIn (ej_admin\<lparr>rol := ''Supervisor''\<rparr>)) ''ver_panel''"
  using tiene_permiso_contract [of "LoggedIn ej_admin" "''gestionar_usuarios''"]
        tiene_permiso_contract [of "LoggedIn ej_guardia" "''gestionar_usuarios''"]
        tiene_permiso_contract [of AnonymousUser "''ver_panel''"]
        tiene_permiso_contract [of "LoggedIn (ej_admin\<lparr>rol := ''Supervisor''\<rparr>)" "''ver_panel''"]
  by (simp add: ej_admin_def ej_guardia_def perm_defs hasCapability_spec_def)

section \<open>Transitions of a request\<close>

lemma query_get_Some:
  "query_get rows i = Inr (Some r) \<Longrightarrow> id_solicitud r = i \<and> r \<in> set rows"
  unfolding query_get_def
  by (auto simp: find_Some_iff in_set_conv_nth split: option.splits if_splits)

lemma query_get_existe:
  "i \<in> id_solicitud ` set rows \<Longrightarrow> \<exists>r. query_get rows i = Inr (Some r)"
  unfolding query_get_def
  by (cases "find (\<lambda>r. id_solicitud r = i) rows") (auto simp: find_None_iff)

lemma query_get_no_existe:
  "i \<notin> id_solicitud ` set rows \<Longrightarrow>
     query_get rows i = (if clave_en_rango i then Inr None else Inl OverflowError)"
  unfolding query_get_def
  by (cases "find (\<lambda>r. id_solicitud r = i) rows") (auto simp: find_Some_iff)

text \<open>
  On a table whose keys all fit the key column, the lookup is the range check of the
  driver followed by the search.
\<close>

lemma query_get_rango:
  assumes "\<forall>r \<in> set rows. clave_en_rango (id_solicitud r)"
  shows "query_get rows i =
           (if clave_en_rango i then Inr (find (\<lambda>r. id_solicitud r = i) rows)
            else Inl OverflowError)"
proof (cases "i \<in> id_solicitud ` set rows")
  case True
  with assms have "clave_en_rango i" by auto
  then show ?thesis
    unfolding query_get_def by (auto split: option.splits)
next
  case False
  then have "find (\<lambda>r. id_solicitud r = i) rows = None"
    by (auto simp: find_None_iff)
  then show ?thesis
    unfolding query_get_def by simp
qed

lemma query_get_map_update:
  "query_get (map (\<lambda>x. if id_solicitud x = i then x\<lparr>estado := e, autorizador := b\<rparr> else x) rows) j
     = (case query_get rows j of
          Inl err \<Rightarrow> Inl err
        | Inr encontrada \<Rightarrow>
            Inr (map_option (\<lambda>x. if id_solicitud x = i then x\<lparr>estado := e, autorizador := b\<rparr> else x)
                   encontrada))"
proof -
  have "find (\<lambda>r. id_solicitud r = j)
          (map (\<lambda>x. if id_solicitud x = i then x\<lparr>estado := e, autorizador := b\<rparr> else x) rows)
        = map_option (\<lambda>x. if id_solicitud x = i then x\<lparr>estado := e, autorizador := b\<rparr> else x)
            (find (\<lambda>r. id_solicitud r = j) rows)"
    by (induction rows) auto
  then show ?thesis
    unfolding query_get_def by (simp split: option.splits)
qed

lemma gestionar_solicitud_db_sin_permiso:
  "\<not> tiene_permiso cu ''gestionar_solicitud''
   \<Longrightarrow> gestionar_solicitud_db cu a i e rows = Inr (False, rows)"
  by (simp add: gestionar_solicitud_db_def)

lemma gestionar_solicitud_db_no_existe:
  assumes "tiene_permiso cu ''gestionar_solicitud''" and "i \<notin> id_solicitud ` set rows"
  shows "gestionar_solicitud_db cu a i e rows
           = (if clave_en_rango i then Inr (False, rows) else Inl OverflowError)"
  using assms(1) query_get_no_existe [OF assms(2)]
  by (simp add: gestionar_solicitud_db_def bind_err_def)

lemma gestionar_solicitud_db_exito:
  assumes "tiene_permiso cu ''gestionar_solicitud''" and "query_get rows i = Inr (Some r)"
  shows "gestionar_solicitud_db cu a i e rows =
           Inr (True, map (\<lambda>x. if id_solicitud x = i then x\<lparr>estado := e, autorizador := Some a\<rparr> else x) rows)"
  using assms query_get_Some [OF assms(2)]
  by (simp add: gestionar_solicitud_db_def bind_err_def)

lemma gestionar_solicitud_db_casos:
  "gestionar_solicitud_db cu a i e rows = Inl OverflowError
   \<or> gestionar_solicitud_db cu a i e rows = Inr (False, rows)
   \<or> (tiene_permiso cu ''gestionar_solicitud'' \<and> i \<in> id_solicitud ` set rows
       \<and> gestionar_solicitud_db cu a i e rows =
            Inr (True, map (\<lambda>x. if id_solicitud x = i then x\<lparr>estado := e, autorizador := Some a\<rparr> else x) rows))"
proof (cases "tiene_permiso cu ''gestionar_solicitud''")
  case False
  then show ?thesis by (simp add: gestionar_solicitud_db_sin_permiso)
next
  case True
  show ?thesis
  proof (cases "i \<in> id_solicitud ` set rows")
    case False
    then show ?thesis using gestionar_solicitud_db_no_existe [OF True False, of a e] by simp
  next
    case ex: True
    then obtain r where "query_get rows i = Inr (Some r)"
      using query_get_existe by blast
    with True ex show ?thesis by (simp add: gestionar_solicitud_db_exito)
  qed
qed

lemma gestionar_solicitud_db_True:
  assumes "gestionar_solicitud_db cu a i e rows = Inr (True, rows')"
  shows "tiene_permiso cu ''gestionar_solicitud'' \<and> i \<in> id_solicitud ` set rows
         \<and> rows' = map (\<lambda>x. if id_solicitud x = i then x\<lparr>estado := e, autorizador := Some a\<rparr> else x) rows"
  using assms gestionar_solicitud_db_casos [of cu a i e rows] by auto

lemma gestionar_solicitud_db_resultado:
  assumes "tiene_permiso cu ''gestionar_solicitud''" and "query_get rows i = Inr (Some r)"
  shows "\<exists>rows'. gestionar_solicitud_db cu a i e rows = Inr (True, rows')
           \<and> query_get rows' i = Inr (Some (r\<lparr>estado := e, autorizador := Some a\<rparr>))"
  using query_get_Some [OF assms(2)]
  by (simp add: gestionar_solicitud_db_exito [OF assms] query_get_map_update assms(2))




text \<open>
  C6. When \<open>gestionar_solicitud_db\<close> succeeds for id \<open>i\<close>, the table keeps its
  length and order, every row keeps its id, requester, dates, address, reference
  point, contact and service, every row with another id is unchanged, and the row with
  id \<open>i\<close> differs from the old one only in \<open>estado\<close> and \<open>autorizador\<close>.
\<close>

theorem transicion_marco:
  assumes "gestionar_solicitud_db cu a i e rows = Inr (True, rows')"
  shows "length rows' = length rows
         \<and> (\<forall>k < length rows.
               let r = rows ! k; r' = rows' ! k
               in id_solicitud r' = id_solicitud r \<and> solicitante r' = solicitante r
                  \<and> fecha_inicio_str r' = fecha_inicio_str r \<and> fecha_fin_str r' = fecha_fin_str r
                  \<and> direccion r' = direccion r \<and> comisaria_cercana r' = comisaria_cercana r
                  \<and> contacto r' = contacto r \<and> servicio r' = servicio r
                  \<and> (id_solicitud r \<noteq> i \<longrightarrow> r' = r)
                  \<and> (id_solicitud r = i \<longrightarrow> r' = r\<lparr>estado := e, autorizador := Some a\<rparr>))"
  using gestionar_solicitud_db_True [OF assms]
  by (auto simp: Let_def)

text \<open>
  Witness for C6: a successful approval of request 1 in a table of two requests.
\<close>

theorem transicion_marco_witness:
  "gestionar_solicitud_db (LoggedIn ej_admin) ''victor_admin'' 1 ''APROBADA''
          [ej_solicitud, ej_solicitud\<lparr>id_solicitud := 2\<rparr>]
       = Inr (True, [ej_solicitud\<lparr>estado := ''APROBADA'', autorizador := Some ''victor_admin''\<rparr>,
                     ej_solicitud\<lparr>id_solicitud := 2\<rparr>])
   \<and> length [ej_solicitud\<lparr>estado := ''APROBADA'', autorizador := Some ''victor_admin''\<rparr>,
              ej_solicitud\<lparr>id_solicitud := 2\<rparr>] = length [ej_solicitud, ej_solicitud\<lparr>id_solicitud := 2\<rparr>]
   \<and> solicitante (ej_solicitud\<lparr>estado := ''APROBADA'', autorizador := Some ''victor_admin''\<rparr>)
       = solicitante ej_solicitud"
proof -
  have g: "gestionar_solicitud_db (LoggedIn ej_admin) ''victor_admin'' 1 ''APROBADA''
          [ej_solicitud, ej_solicitud\<lparr>id_solicitud := 2\<rparr>]
       = Inr (True, [ej_solicitud\<lparr>estado := ''APROBADA'', autorizador := Some ''victor_admin''\<rparr>,
                     ej_solicitud\<lparr>id_solicitud := 2\<rparr>])"
    by (simp add: gestionar_solicitud_db_def query_get_def bind_err_def
          ej_admin_def ej_solicitud_def perm_defs)
  from transicion_marco [OF g] g show ?thesis by simp
qed

text \<open>
  C7. There is no guard against re-entry: for a request already \<open>APROBADA\<close> or
  \<open>RECHAZADA\<close>, a call by a user holding \<open>gestionar_solicitud\<close> with any target
  state succeeds and the stored request then has the new state and the new authorizer.
\<close>

theorem transicion_sin_guarda:
  assumes "tiene_permiso cu ''gestionar_solicitud''"
      and "query_get rows i = Inr (Some r)"
      and "estado r = ''APROBADA'' \<or> estado r = ''RECHAZADA''"
  shows "\<exists>rows'. gestionar_solicitud_db cu a i e rows = Inr (True, rows')
           \<and> query_get rows' i = Inr (Some (r\<lparr>estado := e, autorizador := Some a\<rparr>))"
  using query_get_Some [OF assms(2)]
  by (simp add: gestionar_solicitud_db_exito [OF assms(1,2)] query_get_map_update assms(2))

text \<open>
  Witness for C7: an approved request is rejected afterwards.
\<close>

theorem transicion_sin_guarda_witness:
  "tiene_permiso (LoggedIn ej_admin) ''gestionar_solicitud''
   \<and> query_get [ej_solicitud\<lparr>estado := ''APROBADA'', autorizador := Some ''victor_admin''\<rparr>] 1
       = Inr (Some (ej_solicitud\<lparr>estado := ''APROBADA'', autorizador := Some ''victor_admin''\<rparr>))
   \<and> gestionar_solicitud_db (LoggedIn ej_admin) ''victor_admin'' 1 ''RECHAZADA''
            [ej_solicitud\<lparr>estado := ''APROBADA'', autorizador := Some ''victor_admin''\<rparr>]
       = Inr (True, [ej_solicitud\<lparr>estado := ''RECHAZADA'', autorizador := Some ''victor_admin''\<rparr>])
   \<and> query_get [ej_solicitud\<lparr>estado := ''RECHAZADA'', autorizador := Some ''victor_admin''\<rparr>] 1
       = Inr (Some (ej_solicitud\<lparr>estado := ''RECHAZADA'', autorizador := Some ''victor_admin''\<rparr>))"
  using transicion_sin_guarda [of "LoggedIn ej_admin"
          "[ej_solicitud\<lparr>estado := ''APROBADA'', autorizador := Some ''victor_admin''\<rparr>]" 1
          "ej_solicitud\<lparr>estado := ''APROBADA'', autorizador := Some ''victor_admin''\<rparr>"
          "''victor_admin''" "''RECHAZADA''"]
  by (simp add: ej_admin_def ej_solicitud_def perm_defs query_get_def gestionar_solicitud_db_def
        bind_err_def)

section \<open>Submission and approval\<close>

lemma fold_max_cota: "(m::int) \<le> fold max ids m \<and> (\<forall>x \<in> set ids. x \<le> fold max ids m)"
proof (induction ids arbitrary: m)
  case Nil
  then show ?case by simp
next
  case (Cons y ids)
  from Cons.IH [of "max y m"] show ?case by auto
qed

lemma next_id_fresco: "x \<in> set ids \<Longrightarrow> x < next_id ids"
proof (cases ids)
  case Nil
  then show "x \<in> set ids \<Longrightarrow> x < next_id ids" by simp
next
  case (Cons y ys)
  assume "x \<in> set ids"
  with Cons fold_max_cota [of y ys] have "x \<le> fold max ys y" by auto
  with Cons show "x < next_id ids" by (simp add: next_id_def)
qed

lemma query_get_append_nuevo:
  assumes "id_solicitud nueva = next_id (map id_solicitud rows)"
  shows "query_get (rows @ [nueva]) (id_solicitud nueva) = Inr (Some nueva)"
proof -
  have "\<forall>r \<in> set rows. id_solicitud r \<noteq> id_solicitud nueva"
    using next_id_fresco [of _ "map id_solicitud rows"] assms by fastforce
  then have "find (\<lambda>r. id_solicitud r = id_solicitud nueva) (rows @ [nueva]) = Some nueva"
    by (induction rows) auto
  then show ?thesis
    unfolding query_get_def by simp
qed

lemma formulario_solicitud_completo:
  assumes "{''solicitante'', ''inicio'', ''fin'', ''direccion'', ''comisaria'', ''contacto'', ''servicio''}
             \<subseteq> dom d"
  shows "\<exists>nueva. formulario_solicitud cu0 POST d rows
                    = Inr (rows @ [nueva], RedirectConfirmacion (id_solicitud nueva))
           \<and> id_solicitud nueva = next_id (map id_solicitud rows)
           \<and> estado nueva = ''PENDIENTE'' \<and> autorizador nueva = None
           \<and> d ''solicitante'' = Some (solicitante nueva)
           \<and> d ''inicio'' = Some (fecha_inicio_str nueva)
           \<and> d ''fin'' = Some (fecha_fin_str nueva)"
proof -
  from assms obtain v1 v2 v3 v4 v5 v6 v7 where
    "d ''solicitante'' = Some v1" "d ''inicio'' = Some v2" "d ''fin'' = Some v3"
    "d ''direccion'' = Some v4" "d ''comisaria'' = Some v5" "d ''contacto'' = Some v6"
    "d ''servicio'' = Some v7"
    by (auto simp: dom_def)
  then show ?thesis
    by (simp add: formulario_solicitud_def bind_err_def form_item_def Let_def)
qed

text \<open>
  C5. A POST of the public form with its seven fields, by any current user (also the
  anonymous one), appends a request in state \<open>PENDIENTE\<close> with no authorizer; when a
  user holding \<open>gestionar_solicitud\<close> then transitions that request to \<open>APROBADA\<close>,
  passing their own username as the route does, the call succeeds and the stored
  request has state \<open>APROBADA\<close> and that username as authorizer.
\<close>

theorem envio_y_aprobacion:
  assumes "{''solicitante'', ''inicio'', ''fin'', ''direccion'', ''comisaria'', ''contacto'', ''servicio''}
             \<subseteq> dom d"
      and "tiene_permiso (LoggedIn u) ''gestionar_solicitud''"
  shows "\<exists>nueva rows2.
           formulario_solicitud cu0 POST d rows
             = Inr (rows @ [nueva], RedirectConfirmacion (id_solicitud nueva))
         \<and> query_get (rows @ [nueva]) (id_solicitud nueva) = Inr (Some nueva)
         \<and> estado nueva = ''PENDIENTE'' \<and> autorizador nueva = None
         \<and> gestionar_solicitud_db (LoggedIn u) (username u) (id_solicitud nueva) ''APROBADA''
               (rows @ [nueva]) = Inr (True, rows2)
         \<and> query_get rows2 (id_solicitud nueva)
             = Inr (Some (nueva\<lparr>estado := ''APROBADA'', autorizador := Some (username u)\<rparr>))"
proof -
  from formulario_solicitud_completo [OF assms(1), of cu0 rows]
  obtain nueva where f: "formulario_solicitud cu0 POST d rows
                    = Inr (rows @ [nueva], RedirectConfirmacion (id_solicitud nueva))"
    and i: "id_solicitud nueva = next_id (map id_solicitud rows)"
    and e: "estado nueva = ''PENDIENTE''" "autorizador nueva = None"
    by blast
  have q: "query_get (rows @ [nueva]) (id_solicitud nueva) = Inr (Some nueva)"
    by (rule query_get_append_nuevo [OF i])
  from gestionar_solicitud_db_resultado [OF assms(2) q]
  obtain rows2 where
    "gestionar_solicitud_db (LoggedIn u) (username u) (id_solicitud nueva) ''APROBADA''
               (rows @ [nueva]) = Inr (True, rows2)"
    and "query_get rows2 (id_solicitud nueva)
             = Inr (Some (nueva\<lparr>estado := ''APROBADA'', autorizador := Some (username u)\<rparr>))"
    by blast
  with f q e show ?thesis by blast
qed

text \<open>
  Witness for C5: the example of the specification (2024-03-01 to 2024-03-05),
  submitted anonymously and approved by the administrator.
\<close>

theorem envio_y_aprobacion_witness:
  "{''solicitante'', ''inicio'', ''fin'', ''direccion'', ''comisaria'', ''contacto'', ''servicio''}
      \<subseteq> dom ej_form
   \<and> tiene_permiso (LoggedIn ej_admin) ''gestionar_solicitud''
   \<and> formulario_solicitud AnonymousUser POST ej_form [] = Inr ([ej_nueva], RedirectConfirmacion 1)
   \<and> estado ej_nueva = ''PENDIENTE'' \<and> autorizador ej_nueva = None
   \<and> gestionar_solicitud_db (LoggedIn ej_admin) (username ej_admin) 1 ''APROBADA'' [ej_nueva]
       = Inr (True, [ej_nueva\<lparr>estado := ''APROBADA'', autorizador := Some ''victor_admin''\<rparr>])"
proof -
  have h1: "{''solicitante'', ''inicio'', ''fin'', ''direccion'', ''comisaria'', ''contacto'', ''servicio''}
      \<subseteq> dom ej_form"
    by (simp add: ej_form_def dom_def)
  have h2: "tiene_permiso (LoggedIn ej_admin) ''gestionar_solicitud''"
    by (simp add: ej_admin_def perm_defs)
  have f: "formulario_solicitud AnonymousUser POST ej_form [] = Inr ([ej_nueva], RedirectConfirmacion 1)"
    by (simp add: formulario_solicitud_def ej_form_def bind_err_def form_item_def next_id_def
          ej_nueva_def)
  have g: "gestionar_solicitud_db (LoggedIn ej_admin) (username ej_admin) 1 ''APROBADA'' [ej_nueva]
       = Inr (True, [ej_nueva\<lparr>estado := ''APROBADA'', autorizador := Some ''victor_admin''\<rparr>])"
    by (simp add: gestionar_solicitud_db_def query_get_def bind_err_def ej_admin_def perm_defs
          ej_nueva_def)
  have e: "estado ej_nueva = ''PENDIENTE''" "autorizador ej_nueva = None"
    by (simp_all add: ej_nueva_def)
  from envio_y_aprobacion [OF h1 h2, of AnonymousUser "[]"] h1 h2 f g e
  show ?thesis by blast
qed

section \<open>The request invariant\<close>

lemma formulario_solicitud_casos:
  assumes "formulario_solicitud cu m d rows = Inr (rows', resp)"
  shows "rows' = rows
         \<or> (\<exists>nueva. rows' = rows @ [nueva] \<and> estado nueva = ''PENDIENTE'' \<and> autorizador nueva = None)"
  using assms
  by (auto simp: formulario_solicitud_def bind_err_def Let_def split: if_splits sum.splits)

lemma store_inv_append:
  "store_inv (xs @ ys) \<longleftrightarrow> store_inv xs \<and> store_inv ys"
  by (simp add: store_inv_def)

lemma store_inv_filter: "store_inv rows \<Longrightarrow> store_inv (filter P rows)"
  by (induction rows) (auto simp: store_inv_def)

lemma aplicar_Enviar_inv:
  assumes "store_inv rows" shows "store_inv (aplicar (Enviar cu d) rows)"
proof (cases "formulario_solicitud cu POST d rows")
  case (Inl e)
  with assms show ?thesis by simp
next
  case (Inr p)
  obtain rows' resp where p: "p = (rows', resp)" by (cases p)
  from formulario_solicitud_casos [OF Inr [unfolded p]] assms
  have "store_inv rows'"
    by (auto simp: store_inv_append) (simp add: store_inv_def solicitud_inv_def)
  with Inr p show ?thesis by simp
qed

lemma aplicar_Eliminar_inv:
  assumes "store_inv rows" shows "store_inv (aplicar (Eliminar cu i) rows)"
proof (cases "query_get rows i")
  case (Inl err)
  with assms show ?thesis
    by (simp add: eliminar_solicitud_def unauthorized_def bind_err_def)
next
  case (Inr encontrada)
  with assms show ?thesis
    by (cases encontrada)
       (simp_all add: eliminar_solicitud_def unauthorized_def bind_err_def store_inv_filter)
qed

lemma store_inv_map_update:
  assumes "store_inv rows" and "e \<noteq> ''PENDIENTE''"
  shows "store_inv (map (\<lambda>x. if id_solicitud x = i then x\<lparr>estado := e, autorizador := Some a\<rparr> else x) rows)"
  using assms by (induction rows) (auto simp: store_inv_def solicitud_inv_def)

lemma store_inv_map_pendiente:
  assumes "i \<in> id_solicitud ` set rows"
  shows "\<not> store_inv (map (\<lambda>x. if id_solicitud x = i
                                then x\<lparr>estado := ''PENDIENTE'', autorizador := Some a\<rparr> else x) rows)"
proof -
  from assms obtain r where mem: "r \<in> set rows" and idr: "id_solicitud r = i" by auto
  let ?f = "\<lambda>x. if id_solicitud x = i then x\<lparr>estado := ''PENDIENTE'', autorizador := Some a\<rparr> else x"
  have "?f r \<in> set (map ?f rows)" using mem by (rule imageI [of r "set rows" ?f, folded set_map])
  moreover have "\<not> solicitud_inv (?f r)" using idr by (simp add: solicitud_inv_def)
  ultimately show ?thesis
    unfolding store_inv_def list_all_iff by blast
qed

lemma aplicar_Transicion_casos:
  "(aplicar (Transicion cu a i e) rows = rows
      \<and> \<not> (case gestionar_solicitud_db cu a i e rows of Inl err \<Rightarrow> False | Inr (ok, rows') \<Rightarrow> ok))
   \<or> (aplicar (Transicion cu a i e) rows
         = map (\<lambda>x. if id_solicitud x = i then x\<lparr>estado := e, autorizador := Some a\<rparr> else x) rows
       \<and> (case gestionar_solicitud_db cu a i e rows of Inl err \<Rightarrow> False | Inr (ok, rows') \<Rightarrow> ok)
       \<and> i \<in> id_solicitud ` set rows)"
  using gestionar_solicitud_db_casos [of cu a i e rows] by auto

lemma aplicar_inv_iff:
  assumes "store_inv rows"
  shows "store_inv (aplicar x rows) \<longleftrightarrow> \<not> transicion_exitosa_a_pendiente x rows"
proof (cases x)
  case (Enviar cu d)
  with assms show ?thesis by (simp add: aplicar_Enviar_inv del: aplicar.simps)
next
  case (Transicion cu a i e)
  from aplicar_Transicion_casos [of cu a i e rows]
  show ?thesis
  proof
    assume "aplicar (Transicion cu a i e) rows = rows
      \<and> \<not> (case gestionar_solicitud_db cu a i e rows of Inl err \<Rightarrow> False | Inr (ok, rows') \<Rightarrow> ok)"
    with assms Transicion show ?thesis by (simp del: aplicar.simps)
  next
    assume h: "aplicar (Transicion cu a i e) rows
         = map (\<lambda>x. if id_solicitud x = i then x\<lparr>estado := e, autorizador := Some a\<rparr> else x) rows
       \<and> (case gestionar_solicitud_db cu a i e rows of Inl err \<Rightarrow> False | Inr (ok, rows') \<Rightarrow> ok)
       \<and> i \<in> id_solicitud ` set rows"
    then have eq: "aplicar (Transicion cu a i e) rows
         = map (\<lambda>x. if id_solicitud x = i then x\<lparr>estado := e, autorizador := Some a\<rparr> else x) rows"
      and ok: "case gestionar_solicitud_db cu a i e rows of Inl err \<Rightarrow> False | Inr (ok, rows') \<Rightarrow> ok"
      and ex: "i \<in> id_solicitud ` set rows"
      by blast+
    show ?thesis
    proof (cases "e = ''PENDIENTE''")
      case True
      from store_inv_map_pendiente [OF ex, of a]
      have "\<not> store_inv (map (\<lambda>x. if id_solicitud x = i
                                then x\<lparr>estado := e, autorizador := Some a\<rparr> else x) rows)"
        unfolding True .
      then have "\<not> store_inv (aplicar (Transicion cu a i e) rows)"
        unfolding eq .
      moreover have "transicion_exitosa_a_pendiente (Transicion cu a i e) rows"
        using True ok by simp
      ultimately show ?thesis unfolding Transicion by blast
    next
      case False
      from store_inv_map_update [OF assms False, of i a]
      have "store_inv (aplicar (Transicion cu a i e) rows)"
        unfolding eq .
      moreover have "\<not> transicion_exitosa_a_pendiente (Transicion cu a i e) rows"
        using False by simp
      ultimately show ?thesis unfolding Transicion by blast
    qed
  qed
next
  case (Eliminar cu i)
  with assms show ?thesis by (simp add: aplicar_Eliminar_inv del: aplicar.simps)
qed

lemma ejecutar_inv:
  "store_inv rows \<Longrightarrow> \<forall>x \<in> set ops. \<not> destino_pendiente x \<Longrightarrow> store_inv (ejecutar ops rows)"
proof (induction ops arbitrary: rows)
  case Nil
  then show ?case by simp
next
  case (Cons x ops)
  have "\<not> transicion_exitosa_a_pendiente x rows"
    using Cons.prems(2) by (cases x) auto
  then have "store_inv (aplicar x rows)"
    using aplicar_inv_iff [OF Cons.prems(1)] by simp
  then show ?case using Cons by simp
qed

text \<open>
  C1, as the code has it. A submission, a deletion and a transition preserve the
  invariant "authorizer set iff state is not \<open>PENDIENTE\<close>" in every case but one: a
  transition that succeeds with target state \<open>PENDIENTE\<close> breaks it. Hence every store
  reached from the empty one by operations none of which is a transition to
  \<open>PENDIENTE\<close> satisfies the invariant.
\<close>

theorem invariante_autorizador:
  "(store_inv rows \<longrightarrow>
      (store_inv (aplicar x rows) \<longleftrightarrow> \<not> transicion_exitosa_a_pendiente x rows))
   \<and> ((\<forall>y \<in> set ops. \<not> destino_pendiente y) \<longrightarrow> store_inv (ejecutar ops []))"
proof -
  have "store_inv []" by (simp add: store_inv_def)
  then show ?thesis using aplicar_inv_iff [of rows x] ejecutar_inv [of "[]" ops] by blast
qed

text \<open>
  Witness for C1 as amended: an approval preserves the invariant, and it holds after a
  submission, a rejection and a deletion attempt.
\<close>

theorem invariante_autorizador_witness:
  "store_inv [ej_solicitud]
   \<and> \<not> transicion_exitosa_a_pendiente
         (Transicion (LoggedIn ej_admin) ''victor_admin'' 1 ''APROBADA'') [ej_solicitud]
   \<and> store_inv (aplicar (Transicion (LoggedIn ej_admin) ''victor_admin'' 1 ''APROBADA'') [ej_solicitud])
   \<and> \<not> destino_pendiente (Enviar AnonymousUser ej_form)
   \<and> \<not> destino_pendiente (Transicion (LoggedIn ej_admin) ''victor_admin'' 1 ''RECHAZADA'')
   \<and> \<not> destino_pendiente (Eliminar (LoggedIn ej_guardia) 1)
   \<and> store_inv (ejecutar [Enviar AnonymousUser ej_form,
                   Transicion (LoggedIn ej_admin) ''victor_admin'' 1 ''RECHAZADA'',
                   Eliminar (LoggedIn ej_guardia) 1] [])"
  using invariante_autorizador [of "[ej_solicitud]"
          "Transicion (LoggedIn ej_admin) ''victor_admin'' 1 ''APROBADA''"
          "[Enviar AnonymousUser ej_form,
            Transicion (LoggedIn ej_admin) ''victor_admin'' 1 ''RECHAZADA'',
            Eliminar (LoggedIn ej_guardia) 1]"]
  by (simp add: store_inv_def solicitud_inv_def ej_solicitud_def)

text \<open>
  Counterexample to C1 as stated: after an anonymous submission the invariant holds;
  the administrator then calls the transition with target state \<open>PENDIENTE\<close> and the
  request is \<open>PENDIENTE\<close> with an authorizer.
\<close>

theorem invariante_autorizador_contraejemplo:
  "store_inv (ejecutar [Enviar AnonymousUser ej_form] [])
   \<and> \<not> store_inv (ejecutar [Enviar AnonymousUser ej_form,
                             Transicion (LoggedIn ej_admin) (username ej_admin) 1 ''PENDIENTE''] [])"
  by (simp add: formulario_solicitud_def ej_form_def bind_err_def form_item_def next_id_def
        gestionar_solicitud_db_def query_get_def ej_admin_def ROLES_def dict_get_def
        store_inv_def solicitud_inv_def)

section \<open>Requests in force on a date\<close>

lemma agregar_filas_map: "agregar_filas fmt sols tabla = tabla @ map (fila fmt) sols"
  by (induction sols arbitrary: tabla) simp_all

lemma data_generar_pdf_historial:
  "data (generar_pdf_historial fmt cu rows (Some sols) t) = encabezado # map (fila fmt) sols"
  by (simp add: generar_pdf_historial_def agregar_filas_map Let_def)

lemma lista_general_solicitudes_hoy: "modo_arg \<in> {None, Some ''hoy''} \<Longrightarrow> fst (lista_general_solicitudes modo_arg d rows)
        = filter (\<lambda>s. fecha_inicio_str s \<le> d \<and> d \<le> fecha_fin_str s) rows"
  by (auto simp: lista_general_solicitudes_def)

lemma descargar_pdf_hoy_vigentes: "tiene_permiso cu ''generar_pdf'' \<Longrightarrow>
        (\<exists>rep nombre. descargar_pdf_hoy fmt cu d bonita rows = ([], PdfResponse rep nombre)
           \<and> tl (data rep) = map (fila fmt) (filter (\<lambda>s. fecha_inicio_str s \<le> d \<and> d \<le> fecha_fin_str s) rows))"
  using tiene_permiso_autenticado [of cu "''generar_pdf''"]
  by (simp add: descargar_pdf_hoy_def Let_def data_generar_pdf_historial)

text \<open>
  C4. For every table and every date string \<open>d\<close>, the listing in mode \<open>hoy\<close> (also
  the default mode) is exactly the rows with \<open>fecha_inicio_str \<le> d \<le> fecha_fin_str\<close>
  in the lexicographic order of strings, in table order, and the daily report is built
  from the same rows. A request from 2024-01-10 to 2024-01-20 is listed for the 10th,
  the 15th and the 20th and not for the 9th or the 21st.
\<close>

theorem vigentes_rango_inclusivo:
  "(modo_arg = None \<or> modo_arg = Some ''hoy'' \<longrightarrow>
      fst (lista_general_solicitudes modo_arg d rows)
        = filter (\<lambda>s. fecha_inicio_str s \<le> d \<and> d \<le> fecha_fin_str s) rows
      \<and> (\<forall>s. s \<in> set (fst (lista_general_solicitudes modo_arg d rows))
             \<longleftrightarrow> s \<in> set rows \<and> fecha_inicio_str s \<le> d \<and> d \<le> fecha_fin_str s))
   \<and> (tiene_permiso cu ''generar_pdf'' \<longrightarrow>
        (\<exists>rep nombre. descargar_pdf_hoy fmt cu d bonita rows = ([], PdfResponse rep nombre)
           \<and> tl (data rep)
               = map (fila fmt) (filter (\<lambda>s. fecha_inicio_str s \<le> d \<and> d \<le> fecha_fin_str s) rows)))
   \<and> (r \<in> set rows \<and> fecha_inicio_str r = ''2024-01-10'' \<and> fecha_fin_str r = ''2024-01-20'' \<longrightarrow>
          r \<in> set (fst (lista_general_solicitudes None ''2024-01-10'' rows))
        \<and> r \<in> set (fst (lista_general_solicitudes None ''2024-01-15'' rows))
        \<and> r \<in> set (fst (lista_general_solicitudes None ''2024-01-20'' rows))
        \<and> r \<notin> set (fst (lista_general_solicitudes None ''2024-01-09'' rows))
        \<and> r \<notin> set (fst (lista_general_solicitudes None ''2024-01-21'' rows)))"
proof (intro conjI impI)
  assume m: "modo_arg = None \<or> modo_arg = Some ''hoy''"
  then have "modo_arg \<in> {None, Some ''hoy''}" by blast
  from lista_general_solicitudes_hoy [OF this]
  show eq: "fst (lista_general_solicitudes modo_arg d rows)
        = filter (\<lambda>s. fecha_inicio_str s \<le> d \<and> d \<le> fecha_fin_str s) rows" .
  show "\<forall>s. s \<in> set (fst (lista_general_solicitudes modo_arg d rows))
             \<longleftrightarrow> s \<in> set rows \<and> fecha_inicio_str s \<le> d \<and> d \<le> fecha_fin_str s"
    unfolding eq by simp
next
  assume "tiene_permiso cu ''generar_pdf''"
  then show "\<exists>rep nombre. descargar_pdf_hoy fmt cu d bonita rows = ([], PdfResponse rep nombre)
           \<and> tl (data rep)
               = map (fila fmt) (filter (\<lambda>s. fecha_inicio_str s \<le> d \<and> d \<le> fecha_fin_str s) rows)"
    by (rule descargar_pdf_hoy_vigentes)
next
  assume r: "r \<in> set rows \<and> fecha_inicio_str r = ''2024-01-10'' \<and> fecha_fin_str r = ''2024-01-20''"
  have eq: "\<And>d. fst (lista_general_solicitudes None d rows)
        = filter (\<lambda>s. fecha_inicio_str s \<le> d \<and> d \<le> fecha_fin_str s) rows"
    by (rule lista_general_solicitudes_hoy) simp
  from r show "r \<in> set (fst (lista_general_solicitudes None ''2024-01-10'' rows))"
    unfolding eq by simp
  from r show "r \<in> set (fst (lista_general_solicitudes None ''2024-01-15'' rows))"
    unfolding eq by simp
  from r show "r \<in> set (fst (lista_general_solicitudes None ''2024-01-20'' rows))"
    unfolding eq by simp
  from r show "r \<notin> set (fst (lista_general_solicitudes None ''2024-01-09'' rows))"
    unfolding eq by simp
  from r show "r \<notin> set (fst (lista_general_solicitudes None ''2024-01-21'' rows))"
    unfolding eq by simp
qed

text \<open>
  Witness for C4 on a table holding one request from 2024-01-10 to 2024-01-20.
\<close>

theorem vigentes_rango_inclusivo_witness:
  "fst (lista_general_solicitudes None ''2024-01-15'' [ej_solicitud]) = [ej_solicitud]
   \<and> fst (lista_general_solicitudes (Some ''hoy'') ''2024-01-21'' [ej_solicitud]) = []
   \<and> tiene_permiso (LoggedIn ej_guardia) ''generar_pdf''
   \<and> (\<exists>rep nombre. descargar_pdf_hoy ej_fmt (LoggedIn ej_guardia) ''2024-01-20'' ''20/01/2024''
                        [ej_solicitud] = ([], PdfResponse rep nombre)
         \<and> tl (data rep) = [fila ej_fmt ej_solicitud])
   \<and> ej_solicitud \<in> set (fst (lista_general_solicitudes None ''2024-01-10'' [ej_solicitud]))
   \<and> ej_solicitud \<notin> set (fst (lista_general_solicitudes None ''2024-01-09'' [ej_solicitud]))"
  using vigentes_rango_inclusivo [of None "''2024-01-15''" "[ej_solicitud]" "LoggedIn ej_guardia"
          ej_fmt "''20/01/2024''" ej_solicitud]
        vigentes_rango_inclusivo [of "Some ''hoy''" "''2024-01-21''" "[ej_solicitud]" "LoggedIn ej_guardia"
          ej_fmt "''20/01/2024''" ej_solicitud]
        vigentes_rango_inclusivo [of None "''2024-01-20''" "[ej_solicitud]" "LoggedIn ej_guardia"
          ej_fmt "''20/01/2024''" ej_solicitud]
  by (simp add: ej_solicitud_def ej_guardia_def perm_defs)

section \<open>Users\<close>

lemma first_by_username_existe:
  "u \<in> set usuarios \<Longrightarrow> first_by_username usuarios (Some (username u)) \<noteq> None"
  by (auto simp: first_by_username_def find_None_iff)

text \<open>
  C8. When a stored user already has the submitted username (string equality, so
  case-sensitive), \<open>gestionar_usuarios\<close> raises nothing and returns the user table
  exactly as it was, whoever calls it; for a permitted POST the answer is the flash
  "Usuario ya existe.".
\<close>

theorem usuario_duplicado_rechazado:
  assumes "u \<in> set usuarios"
  shows "\<exists>fl r. gestionar_usuarios gph cu m usuarios (Some (username u)) pw rl = Inr (usuarios, fl, r)
           \<and> (tiene_permiso cu ''gestionar_usuarios'' \<and> m = POST \<longrightarrow>
                fl = [(''Usuario ya existe.'', ''error'')] \<and> r = Render ''gestionar_usuarios.html'')"
  using first_by_username_existe [OF assms] tiene_permiso_autenticado [of cu "''gestionar_usuarios''"]
  by (auto simp: gestionar_usuarios_def unauthorized_def split: option.splits)

text \<open>
  Witness for C8: the administrator tries to create a second \<open>GUARDIA\<close>.
\<close>

theorem usuario_duplicado_rechazado_witness:
  "ej_guardia \<in> set [ej_admin, ej_guardia]
   \<and> gestionar_usuarios (\<lambda>p. Inr ''hash-x'') (LoggedIn ej_admin) POST [ej_admin, ej_guardia]
        (Some ''GUARDIA'') (Some ''otra-clave'') (Some ''Administrador'')
       = Inr ([ej_admin, ej_guardia], [(''Usuario ya existe.'', ''error'')],
              Render ''gestionar_usuarios.html'')
   \<and> gestionar_usuarios (\<lambda>p. Inr ''hash-x'') (LoggedIn ej_admin) POST [ej_admin, ej_guardia]
        (Some ''guardia'') (Some ''otra-clave'') (Some ''Guardia'')
       = Inr ([ej_admin, ej_guardia,
               \<lparr>id_usuario = 3, username = ''guardia'', password_hash = Some ''hash-x'',
                rol = ''Guardia''\<rparr>],
              [(''Usuario creado.'', ''success'')], Render ''gestionar_usuarios.html'')"
  using usuario_duplicado_rechazado [of ej_guardia "[ej_admin, ej_guardia]" "\<lambda>p. Inr ''hash-x''"
          "LoggedIn ej_admin" POST "Some ''otra-clave''" "Some ''Administrador''"]
  by (simp add: ej_admin_def ej_guardia_def perm_defs gestionar_usuarios_def
        first_by_username_def bind_err_def next_id_def)

text \<open>
  C10. \<open>check_password\<close> on a user without a hash is \<open>False\<close> for every candidate
  and every behaviour of the hashing library, without calling it; a login that
  establishes a session does so for a user whose hash is set, and a login attempt for
  an account without a hash leaves the current user as it was.
\<close>

theorem sin_hash_no_autentica:
  "(password_hash u = None \<longrightarrow> check_password cph u pw = Inr False)
   \<and> (\<not> is_authenticated cu \<and> login cph cu m usuarios x pw = Inr (LoggedIn v, fl, r)
        \<longrightarrow> password_hash v \<noteq> None)
   \<and> (password_hash u = None \<and> first_by_username usuarios x = Some u
        \<longrightarrow> (\<exists>fl r. login cph cu m usuarios x pw = Inr (cu, fl, r)))"
  by (cases cu; cases m)
     (auto simp: check_password_def login_def bind_err_def split: option.splits if_splits sum.splits)

text \<open>
  Witness for C10, with a hashing library that would accept any password: the account
  without a hash is still refused, the seeded administrator is logged in.
\<close>

theorem sin_hash_no_autentica_witness:
  "password_hash ej_sin_hash = None
   \<and> check_password (\<lambda>h p. Inr True) ej_sin_hash (Some ''cualquiera'') = Inr False
   \<and> first_by_username [ej_admin, ej_sin_hash] (Some ''nuevo'') = Some ej_sin_hash
   \<and> login (\<lambda>h p. Inr True) AnonymousUser POST [ej_admin, ej_sin_hash] (Some ''nuevo'')
        (Some ''cualquiera'')
       = Inr (AnonymousUser, [(credenciales_invalidas, ''error'')], Render ''login.html'')
   \<and> login (\<lambda>h p. Inr True) AnonymousUser POST [ej_admin, ej_sin_hash] (Some ''victor_admin'')
        (Some ''cualquiera'')
       = Inr (LoggedIn ej_admin, [], Redirect ''panel_admin'')
   \<and> password_hash ej_admin \<noteq> None"
  using sin_hash_no_autentica [of ej_sin_hash "\<lambda>h p. Inr True" "Some ''cualquiera''" AnonymousUser
          POST "[ej_admin, ej_sin_hash]" "Some ''nuevo''" ej_admin "[]" "Redirect ''panel_admin''"]
        sin_hash_no_autentica [of ej_sin_hash "\<lambda>h p. Inr True" "Some ''cualquiera''" AnonymousUser
          POST "[ej_admin, ej_sin_hash]" "Some ''victor_admin''" ej_admin "[]" "Redirect ''panel_admin''"]
  by (simp add: ej_admin_def ej_sin_hash_def login_def first_by_username_def check_password_def
        bind_err_def)

section \<open>Report projection\<close>

lemma colorear_encabezado_filas:
  "colorear (h # map (fila fmt) sols)
     = map (\<lambda>k. BACKGROUND (5, Suc k) (5, Suc k) (color_estado (estado (sols ! k)))) [0..<length sols]"
proof -
  have "[1..<Suc (length sols)] = map Suc [0..<length sols]"
    by (simp add: map_Suc_upt)
  then show ?thesis
    by (simp add: colorear_def fila_def Let_def comp_def)
qed

text \<open>
  C9, as the code has it. The table has the header row and then one row per request,
  in order, with the columns id, requester, service, period, address with reference
  point, state, authorizer and contact. The authorizer cell is the authorizer when it
  is set and not the empty string, and \<open>N/A\<close> when it is absent or empty. The state
  cell of row \<open>k\<close> is highlighted \<open>yellow\<close> for \<open>PENDIENTE\<close>, \<open>lightgreen\<close> for
  \<open>APROBADA\<close>, \<open>lightcoral\<close> for \<open>RECHAZADA\<close> and \<open>white\<close> otherwise.
\<close>

theorem proyeccion_reporte:
  "let sols = (case lista of None \<Rightarrow> rows | Some l \<Rightarrow> l);
       rep = generar_pdf_historial fmt cu rows lista t
   in length (data rep) = Suc (length sols) \<and> data rep ! 0 = encabezado
      \<and> length (fondos rep) = length sols
      \<and> (\<forall>k < length sols.
            data rep ! Suc k =
              [str_int (id_solicitud (sols ! k)), solicitante (sols ! k), servicio (sols ! k),
               get_fecha_inicio fmt (sols ! k) @ '' - '' @ get_fecha_fin fmt (sols ! k),
               direccion (sols ! k) @ [CHR 0x0A] @ ''(Com.: '' @ comisaria_cercana (sols ! k) @ '')'',
               estado (sols ! k),
               (case autorizador (sols ! k) of
                  None \<Rightarrow> ''N/A''
                | Some a \<Rightarrow> if a = [] then ''N/A'' else a),
               contacto (sols ! k)]
          \<and> fondos rep ! k =
              BACKGROUND (5, Suc k) (5, Suc k)
                (if estado (sols ! k) = ''PENDIENTE'' then yellow
                 else if estado (sols ! k) = ''APROBADA'' then lightgreen
                 else if estado (sols ! k) = ''RECHAZADA'' then lightcoral
                 else white))"
proof -
  define sols where "sols = (case lista of None \<Rightarrow> rows | Some l \<Rightarrow> l)"
  define rep where "rep = generar_pdf_historial fmt cu rows lista t"
  have d: "data rep = encabezado # map (fila fmt) sols"
    by (simp add: rep_def sols_def generar_pdf_historial_def agregar_filas_map Let_def)
  have c: "fondos rep = map (\<lambda>k. BACKGROUND (5, Suc k) (5, Suc k) (color_estado (estado (sols ! k))))
                           [0..<length sols]"
    using colorear_encabezado_filas [of encabezado fmt sols]
    by (simp add: rep_def sols_def generar_pdf_historial_def agregar_filas_map Let_def)
  have "length (data rep) = Suc (length sols)" "data rep ! 0 = encabezado"
       "length (fondos rep) = length sols"
    by (simp_all add: d c)
  moreover have "\<forall>k < length sols.
            data rep ! Suc k =
              [str_int (id_solicitud (sols ! k)), solicitante (sols ! k), servicio (sols ! k),
               get_fecha_inicio fmt (sols ! k) @ '' - '' @ get_fecha_fin fmt (sols ! k),
               direccion (sols ! k) @ [CHR 0x0A] @ ''(Com.: '' @ comisaria_cercana (sols ! k) @ '')'',
               estado (sols ! k),
               (case autorizador (sols ! k) of
                  None \<Rightarrow> ''N/A''
                | Some a \<Rightarrow> if a = [] then ''N/A'' else a),
               contacto (sols ! k)]
          \<and> fondos rep ! k =
              BACKGROUND (5, Suc k) (5, Suc k)
                (if estado (sols ! k) = ''PENDIENTE'' then yellow
                 else if estado (sols ! k) = ''APROBADA'' then lightgreen
                 else if estado (sols ! k) = ''RECHAZADA'' then lightcoral
                 else white)"
    by (simp add: d c fila_def Let_def color_estado_def)
  ultimately show ?thesis
    unfolding Let_def sols_def [symmetric] rep_def [symmetric] by blast
qed

text \<open>
  Witness for C9 as amended: the report of one pending request.
\<close>

theorem proyeccion_reporte_witness:
  "data (generar_pdf_historial ej_fmt (LoggedIn ej_guardia) [] (Some [ej_solicitud]) ''Historial'')
     = [encabezado,
        [''1'', ''Ana Rojas'', ''Gasfiteria'', ''10/01/2024 - 20/01/2024'',
         ''Av. Central 12'' @ [CHR 0x0A] @ ''(Com.: Comisaria 3)'', ''PENDIENTE'', ''N/A'', ''555-0101'']]
   \<and> fondos (generar_pdf_historial ej_fmt (LoggedIn ej_guardia) [] (Some [ej_solicitud]) ''Historial'')
     = [BACKGROUND (5, 1) (5, 1) yellow]"
proof -
  let ?rep = "generar_pdf_historial ej_fmt (LoggedIn ej_guardia) [] (Some [ej_solicitud]) ''Historial''"
  from proyeccion_reporte [where lista = "Some [ej_solicitud]" and rows = "[]" and fmt = ej_fmt
         and cu = "LoggedIn ej_guardia" and t = "''Historial''"]
  have l: "length (data ?rep) = Suc (Suc 0)" and h: "data ?rep ! 0 = encabezado"
    and lf: "length (fondos ?rep) = Suc 0"
    and r: "data ?rep ! Suc 0 =
              [''1'', ''Ana Rojas'', ''Gasfiteria'', ''10/01/2024 - 20/01/2024'',
         ''Av. Central 12'' @ [CHR 0x0A] @ ''(Com.: Comisaria 3)'', ''PENDIENTE'', ''N/A'', ''555-0101'']"
    and c: "fondos ?rep ! 0 = BACKGROUND (5, 1) (5, 1) yellow"
    by (simp_all add: Let_def ej_solicitud_def ej_fmt_def get_fecha_inicio_def get_fecha_fin_def
          str_int_def str_nat.simps)
  from l h r have "data ?rep = [encabezado,
        [''1'', ''Ana Rojas'', ''Gasfiteria'', ''10/01/2024 - 20/01/2024'',
         ''Av. Central 12'' @ [CHR 0x0A] @ ''(Com.: Comisaria 3)'', ''PENDIENTE'', ''N/A'', ''555-0101'']]"
    by (cases "data ?rep"; simp) (rename_tac a xs, case_tac xs; simp)
  moreover from lf c have "fondos ?rep = [BACKGROUND (5, 1) (5, 1) yellow]"
    by (cases "fondos ?rep"; simp)
  ultimately show ?thesis by simp
qed

text \<open>
  Counterexample to C9 as stated: the user-management form creates an administrator
  whose username is the empty string; a request approved by that user has an
  authorizer that is set (the empty string), and its authorizer cell is \<open>N/A\<close>.
\<close>

theorem proyeccion_reporte_contraejemplo:
  "gestionar_usuarios (\<lambda>p. Inr ''hash-x'') (LoggedIn ej_admin) POST [ej_admin]
        (Some '''') (Some ''clave'') (Some ''Administrador'')
     = Inr ([ej_admin, ej_sin_nombre], [(''Usuario creado.'', ''success'')],
            Render ''gestionar_usuarios.html'')
   \<and> gestionar_solicitud_db (LoggedIn ej_sin_nombre) (username ej_sin_nombre) 1 ''APROBADA''
        [ej_solicitud]
       = Inr (True, [ej_solicitud\<lparr>estado := ''APROBADA'', autorizador := Some ''''\<rparr>])
   \<and> autorizador (ej_solicitud\<lparr>estado := ''APROBADA'', autorizador := Some ''''\<rparr>) \<noteq> None
   \<and> data (generar_pdf_historial ej_fmt (LoggedIn ej_admin)
             [ej_solicitud\<lparr>estado := ''APROBADA'', autorizador := Some ''''\<rparr>]
             None ''Historial Completo'') ! 1 ! 6 = ''N/A''"
  by (simp add: gestionar_usuarios_def first_by_username_def bind_err_def next_id_def
        ej_admin_def ej_sin_nombre_def ej_solicitud_def perm_defs
        gestionar_solicitud_db_def query_get_def generar_pdf_historial_def fila_def Let_def)

end
